theory Spec2Isabelle
  imports Complex_Main "HOL-Library.Word" "HOL-Library.AList"
begin

unbundle bit_operations_syntax

section \<open>Data model of chisel\_mesh.cc\<close>

text \<open>
  A C++ \<open>float\<close> (and \<open>GLfloat\<close>) is kept as its IEEE-754 binary32 bit pattern.
  The functions of chisel\_mesh.cc only copy floats, so no rounding is involved, and
  equality of two buffers in the model is bit-identity.
\<close>

type_synonym cfloat = "32 word"

definition isfinite :: "cfloat \<Rightarrow> bool" where
  \<comment> \<open>\<open>std::isfinite\<close>: the exponent field (bits 23 to 30) is not all ones.\<close>
  "isfinite f = (take_bit 8 (drop_bit 23 f) \<noteq> (255 :: 32 word))"

text \<open>
  Undefined behaviour of the C++ source is a value of the model: an \<open>int\<close> expression
  that leaves the range of \<open>int\<close>, and \<open>operator[]\<close> of a \<open>std::vector\<close> outside
  its size. A function of the model returns \<open>Inl\<close> of the fault, or \<open>Inr\<close> of its result.
\<close>

datatype fault = SignedOverflow | OutOfBounds

definition INT_MIN :: int where
  "INT_MIN = - 2147483648"

definition INT_MAX :: int where
  "INT_MAX = 2147483647"

definition to_int :: "int \<Rightarrow> int" where
  \<comment> \<open>The conversion of an integer value to the 32-bit \<open>int\<close> (modulo \<open>2 ^ 32\<close>).\<close>
  "to_int n = sint (word_of_int n :: 32 word)"

definition int_checked :: "int \<Rightarrow> fault + int" where
  \<comment> \<open>The value of an \<open>int\<close> operation whose mathematical result is \<open>n\<close>.\<close>
  "int_checked n = (if INT_MIN \<le> n \<and> n \<le> INT_MAX then Inr n else Inl SignedOverflow)"

definition int_div :: "int \<Rightarrow> int \<Rightarrow> int" where
  \<comment> \<open>C++ \<open>/\<close> on \<open>int\<close> rounds towards zero (used with the divisor 3 only).\<close>
  "int_div a b = (if 0 \<le> a then a div b else - ((- a) div b))"

definition vector_at :: "'a list \<Rightarrow> int \<Rightarrow> fault + 'a" where
  \<comment> \<open>\<open>v[k]\<close> for an \<open>int\<close> index: \<open>k\<close> is converted to \<open>size_t\<close>, so a negative
      index is far beyond the size; there is no bounds check in the source.\<close>
  "vector_at v k = (if 0 \<le> k \<and> nat k < length v then Inr (v ! nat k) else Inl OutOfBounds)"

definition bind_fault :: "fault + 'a \<Rightarrow> ('a \<Rightarrow> fault + 'b) \<Rightarrow> fault + 'b" where
  "bind_fault r f = (case r of Inl e \<Rightarrow> Inl e | Inr a \<Rightarrow> f a)"

datatype Vec3 = Vec3 cfloat cfloat cfloat

fun coeff :: "Vec3 \<Rightarrow> nat \<Rightarrow> cfloat" where
  \<comment> \<open>\<open>v(k)\<close>, used with the literal indices 0, 1 and 2.\<close>
  "coeff (Vec3 a b c) k = (if k = 0 then a else if k = 1 then b else c)"

text \<open>
  Modelled from the spec: \<open>chisel::PointCloud\<close> with its \<open>Clear\<close> and \<open>AddPoint\<close>,
  which are declared outside chisel\_mesh.cc. The spec has "an ordered, mutable sequence of
  3-D points, cleared and refilled on every integration call": \<open>Clear\<close> empties the
  sequence and \<open>AddPoint\<close> appends at its end.
\<close>

type_synonym PointCloud = "Vec3 list"

definition Clear :: "PointCloud \<Rightarrow> PointCloud" where
  "Clear pc = []"

definition AddPoint :: "Vec3 \<Rightarrow> PointCloud \<Rightarrow> PointCloud" where
  "AddPoint p pc = pc @ [p]"

text \<open>
  \<open>glm::mat4\<close> is four columns of four floats, \<open>m[j]\<close> its column \<open>j\<close> and \<open>m[j][k]\<close>
  the entry of row \<open>k\<close> there. \<open>chisel::Transform\<close> (an Eigen affine transform) is a
  4 by 4 matrix read and written as \<open>t(row, column)\<close>; it is kept as its four rows.
  The indices are the loop counters 0 to 3.
\<close>

datatype vec4 = Vec4 cfloat cfloat cfloat cfloat

datatype mat4 = Mat4 vec4 vec4 vec4 vec4

datatype Transform = Transform vec4 vec4 vec4 vec4

fun vec4_at :: "vec4 \<Rightarrow> nat \<Rightarrow> cfloat" where
  "vec4_at (Vec4 a b c d) k = (if k = 0 then a else if k = 1 then b else if k = 2 then c else d)"

fun vec4_set :: "vec4 \<Rightarrow> nat \<Rightarrow> cfloat \<Rightarrow> vec4" where
  "vec4_set (Vec4 a b c d) k v =
     (if k = 0 then Vec4 v b c d else if k = 1 then Vec4 a v c d
      else if k = 2 then Vec4 a b v d else Vec4 a b c v)"

fun mat4_at :: "mat4 \<Rightarrow> nat \<Rightarrow> vec4" where
  "mat4_at (Mat4 a b c d) j = (if j = 0 then a else if j = 1 then b else if j = 2 then c else d)"

fun Transform_at :: "Transform \<Rightarrow> nat \<Rightarrow> nat \<Rightarrow> cfloat" where
  "Transform_at (Transform a b c d) j k =
     vec4_at (if j = 0 then a else if j = 1 then b else if j = 2 then c else d) k"

fun Transform_set :: "Transform \<Rightarrow> nat \<Rightarrow> nat \<Rightarrow> cfloat \<Rightarrow> Transform" where
  "Transform_set (Transform a b c d) j k v =
     (if j = 0 then Transform (vec4_set a k v) b c d
      else if j = 1 then Transform a (vec4_set b k v) c d
      else if j = 2 then Transform a b (vec4_set c k v) d
      else Transform a b c (vec4_set d k v))"

definition Transform_default :: Transform where
  \<comment> \<open>\<open>chisel::Transform()\<close> does not initialise all of its coefficients. The
      contents of the fresh object are an argument of \<open>addPoints_from\<close>; this value
      stands for them in \<open>addPoints\<close>, which overwrites all sixteen
      (lemma \<open>copy_transformation_any\<close>).\<close>
  "Transform_default = Transform (Vec4 0 0 0 0) (Vec4 0 0 0 0) (Vec4 0 0 0 0) (Vec4 0 0 0 0)"

text \<open>The policy objects and the integrator built by the constructor.\<close>

datatype Truncator = ConstantTruncator real

datatype Weighter = ConstantWeighter real

record ProjectionIntegrator =
  truncator :: Truncator
  weighter :: Weighter
  carvingDist :: real
  enableVoxelCarving :: bool
  centroids :: "Vec3 list"

definition SetCentroids :: "Vec3 list \<Rightarrow> ProjectionIntegrator \<Rightarrow> ProjectionIntegrator" where
  "SetCentroids c p = p\<lparr>centroids := c\<rparr>"

text \<open>
  A mesh of one chunk: its vertices and its index list (\<open>size_t\<close> values). The mesh map
  is kept as the list of its entries in the order in which the range-for of
  \<open>updateVertices\<close> visits them.
\<close>

type_synonym ChunkID = "int \<times> int \<times> int"

record Mesh =
  vertices :: "Vec3 list"
  indices :: "nat list"

type_synonym MeshMap = "(ChunkID \<times> Mesh) list"

text \<open>
  The chisel library is not part of chisel\_mesh.cc. The functions of it that the file
  calls are parameters of the model: \<open>'c\<close> is the state of a \<open>chisel::Chisel\<close> object.
\<close>

record 'c chisel =
  new_Chisel :: "int \<times> int \<times> int \<Rightarrow> real \<Rightarrow> bool \<Rightarrow> 'c"
  GetCentroids :: "'c \<Rightarrow> Vec3 list"
  IntegratePointCloud ::
    "ProjectionIntegrator \<Rightarrow> PointCloud \<Rightarrow> Transform \<Rightarrow> real \<Rightarrow> real \<Rightarrow> 'c \<Rightarrow> 'c"
  UpdateMeshes :: "'c \<Rightarrow> 'c"
  GetAllMeshes :: "'c \<Rightarrow> MeshMap"

text \<open>The Android log: \<open>LOGI\<close> and \<open>LOGE\<close> append a line with its integer arguments.\<close>

datatype log_priority = ANDROID_LOG_INFO | ANDROID_LOG_ERROR

datatype log_line = Log log_priority string "int list"

text \<open>
  The object: the configuration fields, the chisel map, the integrator, the point-cloud
  buffer, the buffers of the drawable and the log. The members \<open>vertices_\<close>,
  \<open>indices_\<close>, \<open>render_mode_\<close>, \<open>is_lighting_on_\<close> and \<open>is_bounding_box_on_\<close>
  are the fields \<open>vertices_buffer\<close>, \<open>indices_buffer\<close>, \<open>render_mode\<close>,
  \<open>is_lighting_on\<close> and \<open>is_bounding_box_on\<close> (a name cannot end in an underscore).
  The configuration scalars are kept as the decimal literals the constructor assigns;
  nothing below depends on how a \<open>float\<close> rounds \<open>0.06\<close>. The members
  \<open>chiselMap\<close> and \<open>lastPointCloud\<close> are pointers in the source; the fields are the
  objects they point to.
\<close>

record 'c ChiselMesh =
  render_mode :: nat
  is_lighting_on :: bool
  is_bounding_box_on :: bool
  chunkSize :: int
  truncationDistScale :: real
  weighting :: real
  enableCarving :: bool
  carvingDistance :: real
  chunkResolution :: real
  farClipping :: real
  rayTruncation :: real
  chiselMap :: 'c
  projectionIntegrator :: ProjectionIntegrator
  lastPointCloud :: PointCloud
  vertices_buffer :: "cfloat list"
  indices_buffer :: "16 word list"
  logcat :: "log_line list"

definition LOGI :: "string \<Rightarrow> int list \<Rightarrow> 'c ChiselMesh \<Rightarrow> 'c ChiselMesh" where
  "LOGI fmt args s = s\<lparr>logcat := logcat s @ [Log ANDROID_LOG_INFO fmt args]\<rparr>"

definition LOGE :: "string \<Rightarrow> int list \<Rightarrow> 'c ChiselMesh \<Rightarrow> 'c ChiselMesh" where
  "LOGE fmt args s = s\<lparr>logcat := logcat s @ [Log ANDROID_LOG_ERROR fmt args]\<rparr>"

definition GL_TRIANGLES :: nat where
  "GL_TRIANGLES = 4"

section \<open>The constructor\<close>

text \<open>
  \<open>ChiselMesh::ChiselMesh()\<close>. Its call of \<open>SetShader()\<close> clears the two flags (the
  shader program is outside this model). The constructor does not assign
  \<open>lastPointCloud\<close>; the field starts as an empty cloud. The other constructor,
  \<open>ChiselMesh(GLenum)\<close>, assigns \<open>render_mode_\<close> only; statements below about "every
  state" cover an object built either way.
\<close>

definition ChiselMesh_new :: "'c chisel \<Rightarrow> 'c ChiselMesh" where
  "ChiselMesh_new L =
     (let chunkSize' = 16;
          truncationDistScale' = 8.0;
          weighting' = 1.0;
          enableCarving' = True;
          carvingDistance' = 0.5;
          chunkResolution' = 0.06;
          farClipping' = 2.0;
          rayTruncation' = 0.5;
          chiselMap' = new_Chisel L (chunkSize', chunkSize', chunkSize') chunkResolution' False;
          truncator' = ConstantTruncator truncationDistScale';
          weighter' = ConstantWeighter weighting';
          centroids' = [];
          integrator = \<lparr>truncator = truncator', weighter = weighter',
             carvingDist = carvingDistance', enableVoxelCarving = enableCarving',
             centroids = centroids'\<rparr>
      in LOGI ''chisel container was created in native environment'' []
           \<lparr>render_mode = GL_TRIANGLES,
            is_lighting_on = False,
            is_bounding_box_on = False,
            chunkSize = chunkSize',
            truncationDistScale = truncationDistScale',
            weighting = weighting',
            enableCarving = enableCarving',
            carvingDistance = carvingDistance',
            chunkResolution = chunkResolution',
            farClipping = farClipping',
            rayTruncation = rayTruncation',
            chiselMap = chiselMap',
            projectionIntegrator = SetCentroids (GetCentroids L chiselMap') integrator,
            lastPointCloud = [],
            vertices_buffer = [],
            indices_buffer = [],
            logcat = []\<rparr>)"

section \<open>addPoints\<close>

definition read_point :: "cfloat list \<Rightarrow> int \<Rightarrow> fault + Vec3" where
  \<comment> \<open>\<open>chisel::Vec3 vec3(vertices[i * 3], vertices[i * 3 + 1], vertices[i * 3 + 2])\<close>\<close>
  "read_point verts i =
     bind_fault (int_checked (i * 3)) (\<lambda>i0.
     bind_fault (vector_at verts i0) (\<lambda>a.
     bind_fault (int_checked (i * 3)) (\<lambda>m1.
     bind_fault (int_checked (m1 + 1)) (\<lambda>i1.
     bind_fault (vector_at verts i1) (\<lambda>b.
     bind_fault (int_checked (i * 3)) (\<lambda>m2.
     bind_fault (int_checked (m2 + 2)) (\<lambda>i2.
     bind_fault (vector_at verts i2) (\<lambda>c.
     Inr (Vec3 a b c)))))))))"

function points_loop :: "int \<Rightarrow> int \<Rightarrow> cfloat list \<Rightarrow> PointCloud \<Rightarrow> fault + PointCloud" where
  \<comment> \<open>\<open>for (int i = 0; i < vertexCount; ++i)\<close>, from the counter \<open>i\<close> on\<close>
  "points_loop i vertexCount verts pc =
     (if i < vertexCount
      then (case read_point verts i of
              Inl e \<Rightarrow> Inl e
            | Inr vec3 \<Rightarrow>
                (case int_checked (i + 1) of
                   Inl e \<Rightarrow> Inl e
                 | Inr i' \<Rightarrow> points_loop i' vertexCount verts (AddPoint vec3 pc)))
      else Inr pc)"
  by pat_completeness auto
termination
  by (relation "measure (\<lambda>(i, vertexCount, verts, pc). nat (vertexCount - i))")
     (auto simp: int_checked_def split: if_splits)

definition copy_transformation :: "mat4 \<Rightarrow> Transform \<Rightarrow> Transform" where
  \<comment> \<open>the two nested loops \<open>extrinsic(j, k) = transformation[j][k]\<close>\<close>
  "copy_transformation transformation extrinsic =
     fold (\<lambda>j e. fold (\<lambda>k e'. Transform_set e' j k (vec4_at (mat4_at transformation j) k))
                       [0 ..< 4] e)
          [0 ..< 4] extrinsic"

definition addPoints_from ::
  "Transform \<Rightarrow> 'c chisel \<Rightarrow> cfloat list \<Rightarrow> mat4 \<Rightarrow> 'c ChiselMesh \<Rightarrow> fault + 'c ChiselMesh" where
  \<comment> \<open>the body of \<open>addPoints\<close>; \<open>fresh\<close> is what \<open>chisel::Transform()\<close> holds\<close>
  "addPoints_from fresh L verts transformation s =
     (let s1 = s\<lparr>lastPointCloud := Clear (lastPointCloud s)\<rparr>;
          vertexCount = to_int (int (length verts div 3));
          s2 = LOGE ''got %d points from as pointcloud data'' [int_div vertexCount 3] s1
      in bind_fault (points_loop 0 vertexCount verts (lastPointCloud s2)) (\<lambda>pc.
           let s3 = s2\<lparr>lastPointCloud := pc\<rparr>;
               extrinsic = copy_transformation transformation fresh
           in Inr (s3\<lparr>chiselMap :=
                 IntegratePointCloud L (projectionIntegrator s3) (lastPointCloud s3) extrinsic
                   (rayTruncation s3) (farClipping s3) (chiselMap s3)\<rparr>)))"

definition addPoints :: "'c chisel \<Rightarrow> cfloat list \<Rightarrow> mat4 \<Rightarrow> 'c ChiselMesh \<Rightarrow> fault + 'c ChiselMesh" where
  "addPoints = addPoints_from Transform_default"

section \<open>updateVertices\<close>

definition vector_at_size :: "'a list \<Rightarrow> nat \<Rightarrow> fault + 'a" where
  \<comment> \<open>\<open>v[index]\<close> for a \<open>size_t\<close> index; there is no bounds check in the source.\<close>
  "vector_at_size v index = (if index < length v then Inr (v ! index) else Inl OutOfBounds)"

definition to_GLushort :: "nat \<Rightarrow> 16 word" where
  \<comment> \<open>\<open>indices.push_back(e)\<close> for a \<open>size_t\<close> expression \<open>e\<close> of mathematical value
      \<open>n\<close>: \<open>size_t\<close> arithmetic reduces \<open>n\<close> modulo \<open>2 ^ 32\<close> or \<open>2 ^ 64\<close>, and the
      conversion to the 16-bit \<open>GLushort\<close> reduces that modulo \<open>2 ^ 16\<close>, which is
      \<open>n\<close> modulo \<open>2 ^ 16\<close> for either width (lemma \<open>to_GLushort_size_t\<close>).\<close>
  "to_GLushort n = word_of_nat n"

fun index_loop ::
  "Mesh \<Rightarrow> nat list \<Rightarrow> cfloat list \<times> 16 word list \<Rightarrow> fault + (cfloat list \<times> 16 word list)" where
  \<comment> \<open>\<open>for (size_t &index: meshes.second->indices)\<close>, over the indices still to visit\<close>
  "index_loop m [] (mesh, inds) = Inr (mesh, inds)"
| "index_loop m (index # rest) (mesh, inds) =
     (case vector_at_size (vertices m) index of
        Inl e \<Rightarrow> Inl e
      | Inr v \<Rightarrow>
          index_loop m rest
            (mesh @ [coeff v 0, coeff v 1, coeff v 2],
             inds @ [to_GLushort (index * 3), to_GLushort (index * 3 + 1),
                     to_GLushort (index * 3 + 2)]))"

fun meshMap_loop ::
  "MeshMap \<Rightarrow> cfloat list \<times> 16 word list \<Rightarrow> fault + (cfloat list \<times> 16 word list)" where
  \<comment> \<open>\<open>for (const std::pair<chisel::ChunkID, chisel::MeshPtr> &meshes : meshMap)\<close>\<close>
  "meshMap_loop [] bufs = Inr bufs"
| "meshMap_loop (meshes # rest) bufs =
     (case index_loop (snd meshes) (indices (snd meshes)) bufs of
        Inl e \<Rightarrow> Inl e
      | Inr bufs' \<Rightarrow> meshMap_loop rest bufs')"

text \<open>
  Modelled from the spec: \<open>SetVertices\<close> of the drawable base class, which is outside
  chisel\_mesh.cc. The spec has \<open>updateVertices\<close> "hands them to the rendering
  collaborator", and \<open>Render\<close> draws from the members \<open>vertices_\<close> and \<open>indices_\<close>:
  \<open>SetVertices\<close> stores the two buffers there.
\<close>

definition SetVertices :: "cfloat list \<Rightarrow> 16 word list \<Rightarrow> 'c ChiselMesh \<Rightarrow> 'c ChiselMesh" where
  "SetVertices mesh inds s = s\<lparr>vertices_buffer := mesh, indices_buffer := inds\<rparr>"

definition updateVertices :: "'c chisel \<Rightarrow> 'c ChiselMesh \<Rightarrow> fault + 'c ChiselMesh" where
  "updateVertices L s =
     (let s1 = s\<lparr>chiselMap := UpdateMeshes L (chiselMap s)\<rparr>;
          s2 = LOGI ''Generating Mesh ...'' [] s1;
          meshMap = GetAllMeshes L (chiselMap s2);
          s3 = LOGI ''Map with %d items'' [to_int (int (length meshMap))] s2
      in bind_fault (meshMap_loop meshMap ([], [])) (\<lambda>(mesh, inds).
           let s4 = LOGI ''Got %d polygons'' [to_int (int (length mesh div 3))] s3
           in Inr (SetVertices mesh inds s4)))"

section \<open>Sequences of calls\<close>

datatype call = AddPoints "cfloat list" mat4 | UpdateVertices

fun run_call :: "'c chisel \<Rightarrow> call \<Rightarrow> 'c ChiselMesh \<Rightarrow> fault + 'c ChiselMesh" where
  "run_call L (AddPoints verts transformation) s = addPoints L verts transformation s"
| "run_call L UpdateVertices s = updateVertices L s"

fun run :: "'c chisel \<Rightarrow> call list \<Rightarrow> 'c ChiselMesh \<Rightarrow> fault + 'c ChiselMesh" where
  "run L [] s = Inr s"
| "run L (c # cs) s = (case run_call L c s of Inl e \<Rightarrow> Inl e | Inr s' \<Rightarrow> run L cs s')"

definition config ::
  "'c ChiselMesh \<Rightarrow> int \<times> real \<times> real \<times> real \<times> real \<times> real \<times> bool \<times> real" where
  \<comment> \<open>chunk size, voxel resolution, truncation scale, weighting constant, far-clip
      distance, ray-truncation distance, carving flag, carving distance\<close>
  "config s = (chunkSize s, chunkResolution s, truncationDistScale s, weighting s,
               farClipping s, rayTruncation s, enableCarving s, carvingDistance s)"

section \<open>Reading the results\<close>

definition point_of :: "cfloat list \<Rightarrow> nat \<Rightarrow> Vec3" where
  \<comment> \<open>the triple \<open>(input[3i], input[3i+1], input[3i+2])\<close>\<close>
  "point_of verts i = Vec3 (verts ! (3 * i)) (verts ! (3 * i + 1)) (verts ! (3 * i + 2))"

definition coords :: "Vec3 \<Rightarrow> cfloat list" where
  "coords v = [coeff v 0, coeff v 1, coeff v 2]"

definition expanded :: "nat \<Rightarrow> 16 word list" where
  \<comment> \<open>the three index-buffer entries of the mesh index \<open>i\<close>\<close>
  "expanded i = [to_GLushort (i * 3), to_GLushort (i * 3 + 1), to_GLushort (i * 3 + 2)]"

definition mesh_ok :: "Mesh \<Rightarrow> bool" where
  \<comment> \<open>every index of the mesh names one of its vertices\<close>
  "mesh_ok m = list_all (\<lambda>i. i < length (vertices m)) (indices m)"

fun Transform_of_mat4 :: "mat4 \<Rightarrow> Transform" where
  \<comment> \<open>the transform whose row \<open>j\<close> is the column \<open>m[j]\<close> of the glm matrix\<close>
  "Transform_of_mat4 (Mat4 c0 c1 c2 c3) = Transform c0 c1 c2 c3"

fun vec4_entries :: "vec4 \<Rightarrow> cfloat list" where
  "vec4_entries (Vec4 a b c d) = [a, b, c, d]"

fun mat4_entries :: "mat4 \<Rightarrow> cfloat list" where
  "mat4_entries (Mat4 c0 c1 c2 c3) =
     vec4_entries c0 @ vec4_entries c1 @ vec4_entries c2 @ vec4_entries c3"

definition malformed :: "cfloat list \<Rightarrow> mat4 \<Rightarrow> bool" where
  \<comment> \<open>the inputs that section 7 of the spec calls input validation errors\<close>
  "malformed verts transformation =
     (length verts mod 3 \<noteq> 0 \<or> \<not> list_all isfinite verts
      \<or> \<not> list_all isfinite (mat4_entries transformation))"

definition unmutated :: "'c ChiselMesh \<Rightarrow> fault + 'c ChiselMesh \<Rightarrow> bool" where
  \<comment> \<open>a call that ends in \<open>r\<close> from the state \<open>s\<close> has changed neither the point-cloud
      buffer nor the chunk store nor the configuration\<close>
  "unmutated s r =
     (case r of
        Inl e \<Rightarrow> True
      | Inr s' \<Rightarrow> lastPointCloud s' = lastPointCloud s \<and> chiselMap s' = chiselMap s
                 \<and> config s' = config s)"

definition flat_vertices :: "MeshMap \<Rightarrow> cfloat list" where
  \<comment> \<open>for each chunk mesh and each index of its index list, the coordinates of the
      indexed vertex\<close>
  "flat_vertices mm =
     concat (map (\<lambda>meshes. concat (map (\<lambda>i. coords (vertices (snd meshes) ! i))
                                        (indices (snd meshes)))) mm)"

definition flat_indices :: "MeshMap \<Rightarrow> 16 word list" where
  \<comment> \<open>for each chunk mesh and each index of its index list, the three expanded entries\<close>
  "flat_indices mm = concat (map (\<lambda>meshes. concat (map expanded (indices (snd meshes)))) mm)"

definition meshes_ok :: "MeshMap \<Rightarrow> bool" where
  "meshes_ok mm = list_all (\<lambda>meshes. mesh_ok (snd meshes)) mm"

section \<open>The chunk store, the mesh extractor and the voxel merge of the spec\<close>

text \<open>
  Modelled from the spec: the voxel/chunk store and the mesh extractor (spec sections 3 and
  4.4), whose code (chisel's chunk manager, \<open>UpdateMeshes\<close> and \<open>GetAllMeshes\<close>) is
  not in chisel\_mesh.cc. A voxel is a signed distance and a weight; a chunk owns its voxels
  and a "needs remesh" flag; the chunk manager owns the chunks and the mesh map. The
  extractor works "for each dirty chunk", builds the chunk's mesh from the voxel contents
  (of the chunk and its neighbours), replaces the chunk's entry of the mesh map wholesale
  and resets the flag. The surface extraction itself is a parameter: any function of the
  voxel contents and the chunk id. Distances and weights are real numbers: the spec's
  formulas are read in exact arithmetic.
\<close>

record Voxel =
  sdf :: real
  weight :: real

record Chunk =
  voxels :: "Voxel list"
  needs_remesh :: bool

record ChunkManager =
  chunks :: "(ChunkID \<times> Chunk) list"
  allMeshes :: MeshMap

type_synonym mesh_extractor = "(ChunkID \<times> Voxel list) list \<Rightarrow> ChunkID \<Rightarrow> Mesh"

definition voxel_contents :: "ChunkManager \<Rightarrow> (ChunkID \<times> Voxel list) list" where
  \<comment> \<open>Modelled from the spec: what a mesh is derived from, "that chunk's current voxel
      contents (and, for correctness at boundaries, its immediate neighbors)".\<close>
  "voxel_contents cm = map (\<lambda>(cid, ch). (cid, voxels ch)) (chunks cm)"

definition remesh :: "mesh_extractor \<Rightarrow> ChunkManager \<Rightarrow> ChunkManager" where
  \<comment> \<open>Modelled from the spec: section 4.4, \<open>remesh(chunkManager)\<close>. For each dirty chunk
      the mesh is extracted and replaces the chunk's entry; every dirty flag is reset.\<close>
  "remesh mesher cm =
     \<lparr>chunks = map (\<lambda>(cid, ch). (cid, ch\<lparr>needs_remesh := False\<rparr>)) (chunks cm),
      allMeshes =
        fold (\<lambda>(cid, ch) mm.
                if needs_remesh ch then AList.update cid (mesher (voxel_contents cm) cid) mm
                else mm)
             (chunks cm) (allMeshes cm)\<rparr>"

definition spec_chisel ::
  "(ProjectionIntegrator \<Rightarrow> PointCloud \<Rightarrow> Transform \<Rightarrow> real \<Rightarrow> real \<Rightarrow> ChunkManager \<Rightarrow> ChunkManager)
   \<Rightarrow> mesh_extractor \<Rightarrow> ChunkManager chisel" where
  \<comment> \<open>Modelled from the spec: the chisel library over this chunk manager. A new volume
      has no chunk ("before any integration, \<open>getAllChunks()\<close> is empty"); the
      integration and the surface extraction are parameters.\<close>
  "spec_chisel integrate mesher =
     \<lparr>new_Chisel = (\<lambda>size resolution useColor. \<lparr>chunks = [], allMeshes = []\<rparr>),
      GetCentroids = (\<lambda>cm. []),
      IntegratePointCloud = integrate,
      UpdateMeshes = remesh mesher,
      GetAllMeshes = allMeshes\<rparr>"

fun GetWeight :: "Weighter \<Rightarrow> real" where
  \<comment> \<open>Modelled from the spec: the Weighter of section 4.2, "a constant weight per
      observation".\<close>
  "GetWeight (ConstantWeighter w) = w"

fun GetTruncationDistance :: "Truncator \<Rightarrow> real" where
  \<comment> \<open>Modelled from the spec: the Truncator of section 4.2, "a constant, independent of
      range".\<close>
  "GetTruncationDistance (ConstantTruncator t) = t"

definition merge_sample :: "real \<Rightarrow> real \<Rightarrow> Voxel \<Rightarrow> Voxel" where
  \<comment> \<open>Modelled from the spec: step 5 of section 4.3, the running weighted average.\<close>
  "merge_sample sampleDistance sampleWeight v =
     \<lparr>sdf = (sdf v * weight v + sampleDistance * sampleWeight) / (weight v + sampleWeight),
      weight = weight v + sampleWeight\<rparr>"

subsection \<open>The projection integrator of the spec\<close>

text \<open>
  Modelled from the spec: the projection integrator of section 4.3, whose code (chisel's
  \<open>IntegratePointCloud\<close> and \<open>ProjectionIntegrator\<close>) is not in chisel\_mesh.cc. Points,
  distances and the pose are real: the steps are read in exact arithmetic. The volume is
  read voxel by voxel: a voxel of a chunk that does not exist yet is an unobserved voxel
  (weight 0), and the chunks marked dirty are a set. What a carved voxel becomes is not
  said by the spec; it is a parameter of the setup.
\<close>

type_synonym point3 = "real \<times> real \<times> real"

record Pose =
  rotation :: "point3 \<times> point3 \<times> point3"
  translation :: point3

fun dot :: "point3 \<Rightarrow> point3 \<Rightarrow> real" where
  "dot (a, b, c) (x, y, z) = a * x + b * y + c * z"

fun plus3 :: "point3 \<Rightarrow> point3 \<Rightarrow> point3" where
  "plus3 (a, b, c) (x, y, z) = (a + x, b + y, c + z)"

fun minus3 :: "point3 \<Rightarrow> point3 \<Rightarrow> point3" where
  "minus3 (a, b, c) (x, y, z) = (a - x, b - y, c - z)"

fun scale3 :: "real \<Rightarrow> point3 \<Rightarrow> point3" where
  "scale3 k (x, y, z) = (k * x, k * y, k * z)"

definition norm3 :: "point3 \<Rightarrow> real" where
  "norm3 v = sqrt (dot v v)"

definition to_world :: "Pose \<Rightarrow> point3 \<Rightarrow> point3" where
  \<comment> \<open>Modelled from the spec: step 1, "transform the point into world space using
      \<open>pose\<close>" (the rotation, by its rows, then the translation).\<close>
  "to_world pose p =
     (case rotation pose of
        (r0, r1, r2) \<Rightarrow> plus3 (dot r0 p, dot r1 p, dot r2 p) (translation pose))"

definition range_of :: "Pose \<Rightarrow> point3 \<Rightarrow> real" where
  \<comment> \<open>Modelled from the spec: step 2, "range = distance from sensor origin (pose
      translation) to the world point".\<close>
  "range_of pose p = norm3 (minus3 (to_world pose p) (translation pose))"

type_synonym VoxelID = "int \<times> int \<times> int"

record Volume =
  voxel_at :: "VoxelID \<Rightarrow> Voxel"
  dirty_chunks :: "ChunkID set"

fun voxel_of :: "real \<Rightarrow> point3 \<Rightarrow> VoxelID" where
  \<comment> \<open>Modelled from the spec: the voxel that holds a world position, at "world units per
      voxel" \<open>res\<close>.\<close>
  "voxel_of res (x, y, z) = (\<lfloor>x / res\<rfloor>, \<lfloor>y / res\<rfloor>, \<lfloor>z / res\<rfloor>)"

fun chunk_of :: "int \<Rightarrow> VoxelID \<Rightarrow> ChunkID" where
  \<comment> \<open>Modelled from the spec: the chunk of a voxel, "world position divided by (chunk
      edge length times voxel resolution)".\<close>
  "chunk_of edge (i, j, k) = (i div edge, j div edge, k div edge)"

record IntegrationSetup =
  policies :: ProjectionIntegrator
  carved :: "Voxel \<Rightarrow> Voxel"
  chunk_edge :: int
  voxel_resolution :: real
  rayTruncationDistance :: real
  farClipDistance :: real

definition ray_samples :: "real \<Rightarrow> real \<Rightarrow> real list" where
  \<comment> \<open>Modelled from the spec: step 3, the distances from the sensor at which the walk
      "in voxel-resolution steps" touches a voxel, from the sensor origin up to \<open>len\<close>.\<close>
  "ray_samples res len = map (\<lambda>k. real k * res) [0 ..< Suc (nat \<lfloor>len / res\<rfloor>)]"

definition touch ::
  "IntegrationSetup \<Rightarrow> point3 \<Rightarrow> point3 \<Rightarrow> real \<Rightarrow> real \<Rightarrow> Volume \<Rightarrow> Volume" where
  \<comment> \<open>Modelled from the spec: steps 4 to 6 for the voxel at distance \<open>t\<close> along the ray.
      The signed distance is \<open>t\<close> minus the range; within the truncation band the sample
      is merged; outside it the voxel is carved when carving is enabled and the voxel lies
      strictly between the sensor and the surface less the carving distance, and is left
      untouched otherwise; the chunk of a written voxel is marked dirty.\<close>
  "touch cfg origin worldPoint rng t vol =
     (let a = voxel_of (voxel_resolution cfg)
                (plus3 origin (scale3 (t / rng) (minus3 worldPoint origin)));
          signedDistance = t - rng
      in if \<bar>signedDistance\<bar> \<le> GetTruncationDistance (truncator (policies cfg))
         then vol\<lparr>voxel_at := (voxel_at vol)
                    (a := merge_sample signedDistance (GetWeight (weighter (policies cfg)))
                            (voxel_at vol a)),
                  dirty_chunks := insert (chunk_of (chunk_edge cfg) a) (dirty_chunks vol)\<rparr>
         else if enableVoxelCarving (policies cfg) \<and> 0 < t
                 \<and> t < rng - carvingDist (policies cfg)
         then vol\<lparr>voxel_at := (voxel_at vol)(a := carved cfg (voxel_at vol a)),
                  dirty_chunks := insert (chunk_of (chunk_edge cfg) a) (dirty_chunks vol)\<rparr>
         else vol)"

definition integrate_point :: "IntegrationSetup \<Rightarrow> Pose \<Rightarrow> point3 \<Rightarrow> Volume \<Rightarrow> Volume" where
  \<comment> \<open>Modelled from the spec: steps 1 to 3 for one point of the cloud. A point beyond the
      far-clip distance is skipped; so is a zero-length ray ("point coincides with sensor
      origin"); otherwise the ray is walked up to the ray-truncation distance beyond the
      surface.\<close>
  "integrate_point cfg pose p vol =
     (let worldPoint = to_world pose p;
          origin = translation pose;
          rng = norm3 (minus3 worldPoint origin)
      in if rng > farClipDistance cfg then vol
         else if rng = 0 then vol
         else fold (touch cfg origin worldPoint rng)
                   (ray_samples (voxel_resolution cfg) (rng + rayTruncationDistance cfg)) vol)"

definition integrate_cloud ::
  "IntegrationSetup \<Rightarrow> Pose \<Rightarrow> point3 list \<Rightarrow> Volume \<Rightarrow> Volume" where
  \<comment> \<open>Modelled from the spec: section 4.3, \<open>integrate\<close>, "for each point in the cloud".\<close>
  "integrate_cloud cfg pose cloud vol = fold (integrate_point cfg pose) cloud vol"

definition configured :: "'c ChiselMesh \<Rightarrow> (Voxel \<Rightarrow> Voxel) \<Rightarrow> IntegrationSetup" where
  \<comment> \<open>the setup that \<open>addPoints\<close> passes on from the object \<open>s\<close>\<close>
  "configured s c =
     \<lparr>policies = projectionIntegrator s, carved = c, chunk_edge = chunkSize s,
      voxel_resolution = chunkResolution s, rayTruncationDistance = rayTruncation s,
      farClipDistance = farClipping s\<rparr>"

definition setup_ok :: "IntegrationSetup \<Rightarrow> bool" where
  \<comment> \<open>a setup whose truncation band holds every voxel of a walked ray\<close>
  "setup_ok cfg =
     (0 < voxel_resolution cfg \<and> 0 \<le> rayTruncationDistance cfg
      \<and> 0 < GetWeight (weighter (policies cfg))
      \<and> farClipDistance cfg \<le> GetTruncationDistance (truncator (policies cfg))
      \<and> rayTruncationDistance cfg \<le> GetTruncationDistance (truncator (policies cfg)))"




text \<open>
  A chisel library for evaluating the model on concrete inputs: the chisel object is the
  list of the integration calls it has received, and the mesh map is a given one.
\<close>

datatype integration = Integration ProjectionIntegrator PointCloud Transform real real

definition recording_chisel :: "MeshMap \<Rightarrow> (integration list) chisel" where
  "recording_chisel mm =
     \<lparr>new_Chisel = (\<lambda>size resolution useColor. []),
      GetCentroids = (\<lambda>c. []),
      IntegratePointCloud = (\<lambda>p pc e truncation maxDist c. c @ [Integration p pc e truncation maxDist]),
      UpdateMeshes = (\<lambda>c. c),
      GetAllMeshes = (\<lambda>c. mm)\<rparr>"

text \<open>Sample values: the floats 1.0, 2.0, 3.0 and 4.0, a quiet NaN, the identity matrix.\<close>

definition f1 :: cfloat where
  "f1 = 0x3F800000"

definition f2 :: cfloat where
  "f2 = 0x40000000"

definition f3 :: cfloat where
  "f3 = 0x40400000"

definition f4 :: cfloat where
  "f4 = 0x40800000"

definition fNaN :: cfloat where
  "fNaN = 0x7FC00000"

definition identity4 :: mat4 where
  "identity4 = Mat4 (Vec4 f1 0 0 0) (Vec4 0 f1 0 0) (Vec4 0 0 f1 0) (Vec4 0 0 0 f1)"

definition nan_matrix :: mat4 where
  "nan_matrix = Mat4 (Vec4 fNaN 0 0 0) (Vec4 0 f1 0 0) (Vec4 0 0 f1 0) (Vec4 0 0 0 f1)"

text \<open>A square of two triangles, and a mesh with more than 21845 vertices.\<close>

definition quad :: Mesh where
  "quad = \<lparr>vertices = [Vec3 0 0 f1, Vec3 f1 0 f1, Vec3 f1 f1 f1, Vec3 0 f1 f1],
           indices = [0, 1, 2, 0, 2, 3]\<rparr>"

definition big_mesh :: Mesh where
  "big_mesh = \<lparr>vertices = replicate 21846 (Vec3 f1 f2 f3), indices = [21844, 21845]\<rparr>"

text \<open>
  A chunk store with one dirty chunk, an integration that leaves this store, and a surface
  extraction that gives the square for every chunk.
\<close>

definition dirty_store :: ChunkManager where
  "dirty_store =
     \<lparr>chunks = [((0, 0, 0), \<lparr>voxels = [\<lparr>sdf = 0, weight = 1\<rparr>], needs_remesh = True\<rparr>)],
      allMeshes = []\<rparr>"

definition dirtying_integrator ::
  "ProjectionIntegrator \<Rightarrow> PointCloud \<Rightarrow> Transform \<Rightarrow> real \<Rightarrow> real \<Rightarrow> ChunkManager \<Rightarrow> ChunkManager" where
  "dirtying_integrator p pc e truncation maxDist cm = dirty_store"

definition quad_mesher :: mesh_extractor where
  "quad_mesher contents cid = quad"

definition quad_chisel :: "ChunkManager chisel" where
  "quad_chisel = spec_chisel dirtying_integrator quad_mesher"

text \<open>The identity pose and a volume with no observation.\<close>

definition identity_pose :: Pose where
  "identity_pose = \<lparr>rotation = ((1, 0, 0), (0, 1, 0), (0, 0, 1)), translation = (0, 0, 0)\<rparr>"

definition empty_volume :: Volume where
  "empty_volume = \<lparr>voxel_at = (\<lambda>a. \<lparr>sdf = 0, weight = 0\<rparr>), dirty_chunks = {}\<rparr>"



section \<open>Basic facts\<close>

subsection \<open>The point loop\<close>

declare points_loop.simps [simp del]

lemma bind_fault_Inr [simp]: "bind_fault (Inr a) f = f a"
  by (simp add: bind_fault_def)

lemma bind_fault_Inl [simp]: "bind_fault (Inl e) f = Inl e"
  by (simp add: bind_fault_def)

lemma to_int_id: "INT_MIN \<le> n \<Longrightarrow> n \<le> INT_MAX \<Longrightarrow> to_int n = n"
  unfolding to_int_def INT_MIN_def INT_MAX_def
  by (simp add: signed_of_int signed_take_bit_int_eq_self)

lemma read_point_Inr:
  assumes "0 \<le> i" "i * 3 + 2 \<le> INT_MAX" "i * 3 + 2 < int (length verts)"
  shows "read_point verts i = Inr (point_of verts (nat i))"
proof -
  have c0: "int_checked (i * 3) = Inr (i * 3)"
    using assms by (simp add: int_checked_def INT_MIN_def)
  have c1: "int_checked (i * 3 + 1) = Inr (i * 3 + 1)"
    using assms by (simp add: int_checked_def INT_MIN_def)
  have c2: "int_checked (i * 3 + 2) = Inr (i * 3 + 2)"
    using assms by (simp add: int_checked_def INT_MIN_def)
  have v0: "vector_at verts (i * 3) = Inr (verts ! (3 * nat i))"
    using assms by (simp add: vector_at_def nat_mult_distrib mult.commute)
  have v1: "vector_at verts (i * 3 + 1) = Inr (verts ! (3 * nat i + 1))"
    using assms by (simp add: vector_at_def nat_add_distrib nat_mult_distrib mult.commute)
  have v2: "vector_at verts (i * 3 + 2) = Inr (verts ! (3 * nat i + 2))"
    using assms by (simp add: vector_at_def nat_add_distrib nat_mult_distrib mult.commute)
  show ?thesis
    by (simp add: read_point_def c0 c1 c2 v0 v1 v2 point_of_def)
qed

lemma points_loop_Inr:
  assumes "0 \<le> i" "i \<le> vc" "vc * 3 \<le> INT_MAX" "vc * 3 \<le> int (length verts)"
  shows "points_loop i vc verts pc = Inr (pc @ map (point_of verts) [nat i ..< nat vc])"
  using assms
proof (induction i vc verts pc rule: points_loop.induct)
  case (1 i vc verts pc)
  show ?case
  proof (cases "i < vc")
    case False
    then have "points_loop i vc verts pc = Inr pc"
      by (subst points_loop.simps) simp
    with False "1.prems" show ?thesis by simp
  next
    case True
    have rp: "read_point verts i = Inr (point_of verts (nat i))"
      using True "1.prems" by (intro read_point_Inr) auto
    have ck: "int_checked (i + 1) = Inr (i + 1)"
      using True "1.prems" by (simp add: int_checked_def INT_MIN_def)
    have IH: "points_loop (i + 1) vc verts (AddPoint (point_of verts (nat i)) pc)
               = Inr (AddPoint (point_of verts (nat i)) pc
                      @ map (point_of verts) [nat (i + 1) ..< nat vc])"
      using True "1.prems" by (intro "1.IH" [OF True rp ck]) auto
    have up: "[nat i ..< nat vc] = nat i # [nat (i + 1) ..< nat vc]"
      using True "1.prems" by (simp add: upt_conv_Cons nat_add_distrib)
    have "points_loop i vc verts pc
            = points_loop (i + 1) vc verts (AddPoint (point_of verts (nat i)) pc)"
      by (subst points_loop.simps) (simp add: True rp ck)
    then show ?thesis
      using IH by (simp add: up AddPoint_def)
  qed
qed

subsection \<open>The pose copy\<close>

lemma upt4: "[0 ..< 4] = [0, 1, 2, 3::nat]"
  by (simp add: upt_rec)

lemma vec4_fill:
  "vec4_set (vec4_set (vec4_set (vec4_set r 0 a) (Suc 0) b) 2 c) 3 d = Vec4 a b c d"
  by (cases r) simp

lemma copy_transformation_any:
  "copy_transformation transformation e = Transform_of_mat4 transformation"
proof (cases transformation)
  case (Mat4 c0 c1 c2 c3)
  then show ?thesis
    by (cases e; cases c0; cases c1; cases c2; cases c3)
       (simp add: copy_transformation_def upt4 vec4_fill)
qed

lemma addPoints_from_any:
  "addPoints_from fresh L verts transformation s = addPoints L verts transformation s"
  by (simp add: addPoints_def addPoints_from_def copy_transformation_any)

lemma Transform_of_mat4_at:
  "j < 4 \<Longrightarrow> k < 4 \<Longrightarrow>
     Transform_at (Transform_of_mat4 transformation) j k = vec4_at (mat4_at transformation j) k"
  by (cases transformation) simp

subsection \<open>addPoints on a buffer that int can count\<close>

lemma vertexCount_exact:
  "int (length verts) \<le> INT_MAX \<Longrightarrow>
     to_int (int (length verts div 3)) = int (length verts div 3)"
  by (intro to_int_id) (auto simp: INT_MIN_def INT_MAX_def)

lemma addPoints_Inr:
  assumes "int (length verts) \<le> INT_MAX"
  shows "addPoints L verts transformation s =
     Inr (s\<lparr>lastPointCloud := map (point_of verts) [0 ..< length verts div 3],
            logcat := logcat s @ [Log ANDROID_LOG_ERROR ''got %d points from as pointcloud data''
                                   [int (length verts div 3 div 3)]],
            chiselMap := IntegratePointCloud L (projectionIntegrator s)
               (map (point_of verts) [0 ..< length verts div 3])
               (Transform_of_mat4 transformation)
               (rayTruncation s) (farClipping s) (chiselMap s)\<rparr>)"
proof -
  let ?vc = "int (length verts div 3)"
  have vc: "to_int ?vc = ?vc"
    using assms by (rule vertexCount_exact)
  have loop: "points_loop 0 ?vc verts [] = Inr ([] @ map (point_of verts) [nat 0 ..< nat ?vc])"
    using assms by (intro points_loop_Inr) (auto simp: INT_MAX_def)
  have dv: "int_div ?vc 3 = int (length verts div 3 div 3)"
    by (simp add: int_div_def zdiv_int)
  show ?thesis
    using loop
    by (simp add: addPoints_def addPoints_from_def Let_def vc Clear_def LOGE_def dv
          copy_transformation_any)
qed

lemma coords_point_of:
  "coords (point_of verts i) = [verts ! (3 * i), verts ! (3 * i + 1), verts ! (3 * i + 2)]"
  by (simp add: coords_def point_of_def)

lemma take3:
  assumes "3 * k + 3 \<le> length verts"
  shows "take (3 * Suc k) verts = take (3 * k) verts @ coords (point_of verts k)"
proof -
  have "take (Suc (Suc (Suc (3 * k)))) verts
          = take (3 * k) verts @ [verts ! (3 * k), verts ! Suc (3 * k), verts ! Suc (Suc (3 * k))]"
    using assms by (simp add: take_Suc_conv_app_nth)
  moreover have "3 * Suc k = Suc (Suc (Suc (3 * k)))" by simp
  ultimately show ?thesis by (simp only: coords_point_of) simp
qed

lemma concat_points:
  "3 * k \<le> length verts \<Longrightarrow>
     concat (map coords (map (point_of verts) [0 ..< k])) = take (3 * k) verts"
proof (induction k)
  case 0
  then show ?case by simp
next
  case (Suc k)
  then have "3 * k + 3 \<le> length verts" by simp
  from take3 [OF this] Suc show ?case by simp
qed

subsection \<open>The frame of the configuration\<close>

lemma addPoints_config:
  "addPoints L verts t s = Inr s' \<Longrightarrow>
     config s' = config s \<and> projectionIntegrator s' = projectionIntegrator s"
  by (auto simp: addPoints_def addPoints_from_def Let_def bind_fault_def LOGE_def config_def
      split: sum.splits)

lemma updateVertices_config:
  "updateVertices L s = Inr s' \<Longrightarrow>
     config s' = config s \<and> projectionIntegrator s' = projectionIntegrator s"
  by (auto simp: updateVertices_def Let_def bind_fault_def LOGI_def SetVertices_def config_def
      split: sum.splits prod.splits)

lemma run_config:
  "run L cs s = Inr s' \<Longrightarrow>
     config s' = config s \<and> projectionIntegrator s' = projectionIntegrator s"
proof (induction cs arbitrary: s)
  case Nil
  then show ?case by simp
next
  case (Cons c cs)
  then obtain s1 where 1: "run_call L c s = Inr s1" and 2: "run L cs s1 = Inr s'"
    by (auto split: sum.splits)
  have "config s1 = config s \<and> projectionIntegrator s1 = projectionIntegrator s"
    using 1 by (cases c) (auto dest: addPoints_config updateVertices_config)
  with Cons.IH [OF 2] show ?case by simp
qed

subsection \<open>The flattening loops\<close>

lemma index_loop_Inr:
  "list_all (\<lambda>i. i < length (vertices m)) is \<Longrightarrow>
     index_loop m is (mesh, inds) =
       Inr (mesh @ concat (map (\<lambda>i. coords (vertices m ! i)) is), inds @ concat (map expanded is))"
  by (induction "is" arbitrary: mesh inds) (simp_all add: vector_at_size_def coords_def expanded_def)

lemma meshMap_loop_Inr:
  "meshes_ok mm \<Longrightarrow>
     meshMap_loop mm (mesh, inds) = Inr (mesh @ flat_vertices mm, inds @ flat_indices mm)"
proof (induction mm arbitrary: mesh inds)
  case Nil
  then show ?case by (simp add: flat_vertices_def flat_indices_def)
next
  case (Cons a mm)
  then have ok: "mesh_ok (snd a)" and rest: "meshes_ok mm"
    by (simp_all add: meshes_ok_def)
  have "index_loop (snd a) (indices (snd a)) (mesh, inds) =
       Inr (mesh @ concat (map (\<lambda>i. coords (vertices (snd a) ! i)) (indices (snd a))),
            inds @ concat (map expanded (indices (snd a))))"
    using ok by (intro index_loop_Inr) (simp add: mesh_ok_def)
  then show ?case
    using Cons.IH [OF rest] by (simp add: flat_vertices_def flat_indices_def)
qed

lemma length_flat: "length (flat_indices mm) = length (flat_vertices mm)"
  by (induction mm)
     (simp_all add: flat_vertices_def flat_indices_def length_concat comp_def coords_def
        expanded_def)

lemma length_flat3:
  "length (flat_indices mm) = 3 * sum_list (map (\<lambda>meshes. length (indices (snd meshes))) mm)"
  by (induction mm)
     (simp_all add: flat_indices_def length_concat comp_def expanded_def sum_list_triv)

lemma updateVertices_Inr:
  assumes "meshes_ok (GetAllMeshes L (UpdateMeshes L (chiselMap s)))"
  shows "updateVertices L s =
    Inr (s\<lparr>chiselMap := UpdateMeshes L (chiselMap s),
           logcat := logcat s @
             [Log ANDROID_LOG_INFO ''Generating Mesh ...'' [],
              Log ANDROID_LOG_INFO ''Map with %d items''
                [to_int (int (length (GetAllMeshes L (UpdateMeshes L (chiselMap s)))))],
              Log ANDROID_LOG_INFO ''Got %d polygons''
                [to_int (int (length (flat_vertices (GetAllMeshes L (UpdateMeshes L (chiselMap s)))) div 3))]],
           vertices_buffer := flat_vertices (GetAllMeshes L (UpdateMeshes L (chiselMap s))),
           indices_buffer := flat_indices (GetAllMeshes L (UpdateMeshes L (chiselMap s)))\<rparr>)"
  using meshMap_loop_Inr [OF assms, of "[]" "[]"]
  by (simp add: updateVertices_def Let_def LOGI_def SetVertices_def)

subsection \<open>Index entries as numbers\<close>

lemma to_GLushort_unat: "unat (to_GLushort n) = n mod 65536"
  by (simp add: to_GLushort_def unat_of_nat)

lemma to_GLushort_size_t:
  assumes "16 \<le> w"
  shows "to_GLushort (n mod 2 ^ w) = to_GLushort n"
proof -
  have "(2::nat) ^ 16 dvd 2 ^ w"
    using assms by (rule le_imp_power_dvd)
  then have "n mod 2 ^ w mod 2 ^ 16 = n mod 2 ^ 16"
    by (rule mod_mod_cancel)
  then show ?thesis
    by (simp add: to_GLushort_def word_of_nat_eq_iff take_bit_eq_mod)
qed

lemma unat_expanded:
  "map unat (expanded i) = [(3 * i) mod 65536, (3 * i + 1) mod 65536, (3 * i + 2) mod 65536]"
  by (simp add: expanded_def to_GLushort_unat mult.commute)

lemma unat_flat_indices:
  "map unat (flat_indices mm) =
     concat (map (\<lambda>meshes. concat (map (\<lambda>i. [(3 * i) mod 65536, (3 * i + 1) mod 65536,
                                                (3 * i + 2) mod 65536])
                                        (indices (snd meshes)))) mm)"
  by (simp add: flat_indices_def map_concat comp_def unat_expanded)

lemma mod_id_iff: "(n mod 65536 = n) = (n < (65536::nat))"
  by (metis mod_less mod_less_divisor zero_less_numeral)

subsection \<open>Remeshing a clean store\<close>

lemma fold_clean:
  "list_all (\<lambda>(cid, ch). \<not> needs_remesh ch) cs \<Longrightarrow>
     fold (\<lambda>(cid, ch) mm. if needs_remesh ch then f cid mm else mm) cs mm0 = mm0"
  by (induction cs arbitrary: mm0) auto

lemma remesh_clean: "list_all (\<lambda>(cid, ch). \<not> needs_remesh ch) (chunks (remesh mesher cm))"
  by (simp add: remesh_def list_all_iff split_beta)

lemma remesh_idem: "remesh mesher (remesh mesher cm) = remesh mesher cm"
proof -
  let ?cm = "remesh mesher cm"
  have m: "allMeshes (remesh mesher ?cm) = allMeshes ?cm"
    using fold_clean [OF remesh_clean [of mesher cm]]
    by (simp add: remesh_def [of mesher "remesh mesher cm"])
  have c: "chunks (remesh mesher ?cm) = chunks ?cm"
    by (simp add: remesh_def split_beta comp_def)
  from m c show ?thesis by simp
qed

lemma updateVertices_again:
  assumes same: "GetAllMeshes L (UpdateMeshes L (UpdateMeshes L (chiselMap s)))
                  = GetAllMeshes L (UpdateMeshes L (chiselMap s))"
    and first: "updateVertices L s = Inr s1"
  shows "case updateVertices L s1 of
           Inl e \<Rightarrow> False
         | Inr s2 \<Rightarrow> vertices_buffer s2 = vertices_buffer s1 \<and> indices_buffer s2 = indices_buffer s1"
proof -
  let ?mm = "GetAllMeshes L (UpdateMeshes L (chiselMap s))"
  from first obtain mesh inds where
    loop: "meshMap_loop ?mm ([], []) = Inr (mesh, inds)"
    and s1: "chiselMap s1 = UpdateMeshes L (chiselMap s)"
            "vertices_buffer s1 = mesh" "indices_buffer s1 = inds"
    by (auto simp: updateVertices_def Let_def LOGI_def SetVertices_def bind_fault_def
             split: sum.splits prod.splits)
  have "GetAllMeshes L (UpdateMeshes L (chiselMap s1)) = ?mm"
    using same by (simp add: s1)
  then show ?thesis
    using loop s1 by (simp add: updateVertices_def Let_def LOGI_def SetVertices_def)
qed

subsection \<open>Walking a ray\<close>

lemma sample_bound:
  assumes "0 < res" "0 \<le> len" "t \<in> set (ray_samples res len)"
  shows "0 \<le> t \<and> t \<le> len"
proof -
  from assms(3) have "t \<in> (\<lambda>k. real k * res) ` {0 ..< Suc (nat \<lfloor>len / res\<rfloor>)}"
    by (simp only: ray_samples_def set_map set_upt)
  then obtain k where k: "k < Suc (nat \<lfloor>len / res\<rfloor>)" and t: "t = real k * res"
    by auto
  have nn: "0 \<le> len / res"
    using assms by simp
  have "real k \<le> real (nat \<lfloor>len / res\<rfloor>)"
    using k by simp
  also have "\<dots> = of_int \<lfloor>len / res\<rfloor>"
    using nn by simp
  also have "\<dots> \<le> len / res"
    by (rule of_int_floor_le)
  finally have "real k * res \<le> len"
    using assms(1) by (simp add: pos_le_divide_eq)
  moreover have "0 \<le> real k * res"
    using assms(1) by simp
  ultimately show ?thesis
    by (simp add: t)
qed

lemma touch_weight_mono:
  assumes "\<bar>t - rng\<bar> \<le> GetTruncationDistance (truncator (policies cfg))"
    and "0 \<le> GetWeight (weighter (policies cfg))"
  shows "weight (voxel_at vol a) \<le> weight (voxel_at (touch cfg origin wp rng t vol) a)"
  using assms by (simp add: touch_def Let_def merge_sample_def)

lemma touch_other:
  "a \<noteq> voxel_of (voxel_resolution cfg) (plus3 origin (scale3 (t / rng) (minus3 wp origin))) \<Longrightarrow>
     voxel_at (touch cfg origin wp rng t vol) a = voxel_at vol a"
  by (simp add: touch_def Let_def)

lemma in_band:
  assumes "setup_ok cfg" "0 < rng" "rng \<le> farClipDistance cfg"
    and "t \<in> set (ray_samples (voxel_resolution cfg) (rng + rayTruncationDistance cfg))"
  shows "\<bar>t - rng\<bar> \<le> GetTruncationDistance (truncator (policies cfg))"
proof -
  have "0 \<le> t \<and> t \<le> rng + rayTruncationDistance cfg"
    using assms by (intro sample_bound [where res = "voxel_resolution cfg"]) (auto simp: setup_ok_def)
  then show ?thesis
    using assms(1,3) by (auto simp: setup_ok_def abs_le_iff)
qed

lemma walk_weight_mono:
  assumes "\<forall>t \<in> set ts. \<bar>t - rng\<bar> \<le> GetTruncationDistance (truncator (policies cfg))"
    and "0 \<le> GetWeight (weighter (policies cfg))"
  shows "weight (voxel_at vol a) \<le> weight (voxel_at (fold (touch cfg origin wp rng) ts vol) a)"
  using assms
proof (induction ts arbitrary: vol)
  case Nil
  then show ?case by simp
next
  case (Cons t ts)
  have "weight (voxel_at vol a) \<le> weight (voxel_at (touch cfg origin wp rng t vol) a)"
    using Cons.prems by (intro touch_weight_mono) auto
  also have "\<dots> \<le> weight (voxel_at (fold (touch cfg origin wp rng) ts
                                         (touch cfg origin wp rng t vol)) a)"
    using Cons.prems by (intro Cons.IH) auto
  finally show ?case by simp
qed

lemma samples_Cons:
  "ray_samples res len = 0 # map (\<lambda>k. real k * res) [1 ..< Suc (nat \<lfloor>len / res\<rfloor>)]"
proof -
  have "[0 ..< Suc (nat \<lfloor>len / res\<rfloor>)] = 0 # [1 ..< Suc (nat \<lfloor>len / res\<rfloor>)]"
    by (simp add: upt_conv_Cons del: upt_Suc)
  then show ?thesis
    by (simp only: ray_samples_def list.map) simp
qed

lemma dot_self_nonneg: "0 \<le> dot v v"
  by (cases v) (simp add: add_nonneg_nonneg)

lemma plus3_zero: "plus3 origin (scale3 0 v) = origin"
  by (cases origin; cases v) simp

lemma integrate_point_skips:
  "farClipDistance cfg < range_of pose p \<Longrightarrow> integrate_point cfg pose p vol = vol"
  by (simp add: integrate_point_def range_of_def Let_def)

lemma integrate_point_mono:
  assumes "setup_ok cfg"
  shows "weight (voxel_at vol a) \<le> weight (voxel_at (integrate_point cfg pose p vol) a)"
proof -
  let ?r = "range_of pose p"
  have nn: "0 \<le> ?r"
    by (simp add: range_of_def norm3_def dot_self_nonneg)
  show ?thesis
  proof (cases "farClipDistance cfg < ?r \<or> ?r = 0")
    case True
    then show ?thesis
      by (auto simp: integrate_point_def range_of_def Let_def)
  next
    case False
    then have r: "0 < ?r" "?r \<le> farClipDistance cfg"
      using nn by auto
    have band: "\<forall>t \<in> set (ray_samples (voxel_resolution cfg) (?r + rayTruncationDistance cfg)).
             \<bar>t - ?r\<bar> \<le> GetTruncationDistance (truncator (policies cfg))"
      using in_band [OF assms r] by blast
    have w: "0 \<le> GetWeight (weighter (policies cfg))"
      using assms by (simp add: setup_ok_def)
    from walk_weight_mono [OF band w] False show ?thesis
      by (simp add: integrate_point_def range_of_def Let_def)
  qed
qed

lemma integrate_point_affects:
  assumes "setup_ok cfg" "0 < range_of pose p" "range_of pose p \<le> farClipDistance cfg"
  shows "weight (voxel_at vol (voxel_of (voxel_resolution cfg) (translation pose)))
           + GetWeight (weighter (policies cfg))
         \<le> weight (voxel_at (integrate_point cfg pose p vol)
                      (voxel_of (voxel_resolution cfg) (translation pose)))"
proof -
  let ?r = "range_of pose p"
  let ?o = "translation pose"
  let ?wp = "to_world pose p"
  let ?a = "voxel_of (voxel_resolution cfg) ?o"
  let ?rest = "map (\<lambda>k. real k * voxel_resolution cfg)
                 [1 ..< Suc (nat \<lfloor>(?r + rayTruncationDistance cfg) / voxel_resolution cfg\<rfloor>)]"
  let ?vol1 = "touch cfg ?o ?wp ?r 0 vol"
  have split: "ray_samples (voxel_resolution cfg) (?r + rayTruncationDistance cfg) = 0 # ?rest"
    by (rule samples_Cons)
  have band: "\<forall>t \<in> set (0 # ?rest).
             \<bar>t - ?r\<bar> \<le> GetTruncationDistance (truncator (policies cfg))"
    using in_band [OF assms] unfolding split by blast
  have w: "0 \<le> GetWeight (weighter (policies cfg))"
    using assms(1) by (simp add: setup_ok_def)
  have first: "weight (voxel_at ?vol1 ?a)
                 = weight (voxel_at vol ?a) + GetWeight (weighter (policies cfg))"
    using band by (simp add: touch_def Let_def plus3_zero merge_sample_def)
  have "weight (voxel_at ?vol1 ?a) \<le> weight (voxel_at (fold (touch cfg ?o ?wp ?r) ?rest ?vol1) ?a)"
    using band w by (intro walk_weight_mono) auto
  moreover have "integrate_point cfg pose p vol = fold (touch cfg ?o ?wp ?r) ?rest ?vol1"
    using assms(2,3) split by (simp add: integrate_point_def range_of_def Let_def)
  ultimately show ?thesis
    using first by simp
qed

lemma integrate_cloud_skips:
  "integrate_cloud cfg pose (filter (\<lambda>p. range_of pose p \<le> farClipDistance cfg) cloud) vol
     = integrate_cloud cfg pose cloud vol"
proof (induction cloud arbitrary: vol)
  case Nil
  show ?case by simp
next
  case (Cons p cloud)
  show ?case
  proof (cases "range_of pose p \<le> farClipDistance cfg")
    case True
    then show ?thesis
      using Cons.IH by (simp add: integrate_cloud_def)
  next
    case False
    then have "integrate_point cfg pose p vol = vol"
      by (intro integrate_point_skips) simp
    with False show ?thesis
      using Cons.IH [of vol] by (simp add: integrate_cloud_def)
  qed
qed

lemma integrate_cloud_mono:
  assumes "setup_ok cfg"
  shows "weight (voxel_at vol a) \<le> weight (voxel_at (integrate_cloud cfg pose cloud vol) a)"
proof (induction cloud arbitrary: vol)
  case Nil
  show ?case by (simp add: integrate_cloud_def)
next
  case (Cons p cloud)
  have "weight (voxel_at vol a) \<le> weight (voxel_at (integrate_point cfg pose p vol) a)"
    using assms by (rule integrate_point_mono)
  also have "\<dots> \<le> weight (voxel_at (integrate_cloud cfg pose cloud (integrate_point cfg pose p vol)) a)"
    by (rule Cons.IH)
  finally show ?case by (simp add: integrate_cloud_def)
qed

lemma integrate_cloud_affects:
  assumes ok: "setup_ok cfg"
    and p: "p \<in> set cloud" "0 < range_of pose p" "range_of pose p \<le> farClipDistance cfg"
  shows "weight (voxel_at vol (voxel_of (voxel_resolution cfg) (translation pose)))
           + GetWeight (weighter (policies cfg))
         \<le> weight (voxel_at (integrate_cloud cfg pose cloud vol)
                      (voxel_of (voxel_resolution cfg) (translation pose)))"
proof -
  let ?a = "voxel_of (voxel_resolution cfg) (translation pose)"
  from p(1) obtain xs ys where cloud: "cloud = xs @ p # ys"
    by (auto simp: in_set_conv_decomp)
  let ?v1 = "integrate_cloud cfg pose xs vol"
  let ?v2 = "integrate_point cfg pose p ?v1"
  have "weight (voxel_at vol ?a) \<le> weight (voxel_at ?v1 ?a)"
    using ok by (rule integrate_cloud_mono)
  moreover have "weight (voxel_at ?v1 ?a) + GetWeight (weighter (policies cfg))
                   \<le> weight (voxel_at ?v2 ?a)"
    using ok p(2,3) by (rule integrate_point_affects)
  moreover have "weight (voxel_at ?v2 ?a) \<le> weight (voxel_at (integrate_cloud cfg pose ys ?v2) ?a)"
    using ok by (rule integrate_cloud_mono)
  moreover have "integrate_cloud cfg pose cloud vol = integrate_cloud cfg pose ys ?v2"
    by (simp add: cloud integrate_cloud_def)
  ultimately show ?thesis by simp
qed

lemma configured_ok: "setup_ok (configured (ChiselMesh_new L) c)"
  by (simp add: setup_ok_def configured_def ChiselMesh_new_def Let_def LOGI_def SetCentroids_def)

lemma configured_values:
  "farClipDistance (configured (ChiselMesh_new L) c) = 2"
  "GetWeight (weighter (policies (configured (ChiselMesh_new L) c))) = 1"
  by (simp_all add: configured_def ChiselMesh_new_def Let_def LOGI_def SetCentroids_def)

subsection \<open>Repeated integration of one point\<close>











subsection \<open>Two walks from the identity pose\<close>










section \<open>The point-cloud buffer of addPoints\<close>

text \<open>
  Claim C1. For an input buffer of \<open>n\<close> floats and every pose matrix, where \<open>n\<close> is
  within the range of the \<open>int\<close> that counts the points (as the length of every
  \<open>jfloatArray\<close> is, and the size of every \<open>std::vector<float>\<close> of a 32-bit
  ABI), \<open>addPoints\<close> returns, and the
  point-cloud buffer it leaves holds exactly \<open>n div 3\<close> points, none of the earlier
  ones, in order, point \<open>i\<close> being \<open>(input[3i], input[3i+1], input[3i+2])\<close>. The
  chisel map it leaves is the one \<open>IntegratePointCloud\<close> returns for the integrator
  of the object, this cloud, the copied pose, and the \<open>rayTruncation\<close> and
  \<open>farClipping\<close> fields.
\<close>

theorem addPoints_refills_cloud_then_integrates:
  assumes "int (length verts) \<le> INT_MAX"
  shows "case addPoints L verts transformation s of
           Inl e \<Rightarrow> False
         | Inr s' \<Rightarrow>
             lastPointCloud s' = map (point_of verts) [0 ..< length verts div 3]
             \<and> length (lastPointCloud s') = length verts div 3
             \<and> chiselMap s' =
                 IntegratePointCloud L (projectionIntegrator s) (lastPointCloud s')
                   (Transform_of_mat4 transformation) (rayTruncation s) (farClipping s)
                   (chiselMap s)"
  by (simp add: addPoints_Inr [OF assms])

theorem addPoints_refills_cloud_then_integrates_witness:
  "int (length [f1, f2, f3, f4, f3, f2, f1]) \<le> INT_MAX \<and>
   (case addPoints (recording_chisel []) [f1, f2, f3, f4, f3, f2, f1] identity4
           ((ChiselMesh_new (recording_chisel [])) \<lparr>lastPointCloud := [Vec3 f4 f4 f4]\<rparr>) of
      Inl e \<Rightarrow> False
    | Inr s' \<Rightarrow>
        lastPointCloud s' = [Vec3 f1 f2 f3, Vec3 f4 f3 f2]
        \<and> length (lastPointCloud s') = 2
        \<and> chiselMap s' =
            [Integration
              \<lparr>truncator = ConstantTruncator 8, weighter = ConstantWeighter 1,
               carvingDist = 1 / 2, enableVoxelCarving = True, centroids = []\<rparr>
              [Vec3 f1 f2 f3, Vec3 f4 f3 f2]
              (Transform (Vec4 f1 0 0 0) (Vec4 0 f1 0 0) (Vec4 0 0 f1 0) (Vec4 0 0 0 f1))
              (1 / 2) 2])"
  using addPoints_refills_cloud_then_integrates
    [where verts = "[f1, f2, f3, f4, f3, f2, f1]" and L = "recording_chisel []"
       and transformation = identity4
       and s = "(ChiselMesh_new (recording_chisel [])) \<lparr>lastPointCloud := [Vec3 f4 f4 f4]\<rparr>"]
  by (simp add: Let_def INT_MAX_def point_of_def recording_chisel_def ChiselMesh_new_def LOGI_def
        SetCentroids_def identity4_def upt_rec split: sum.splits)

section \<open>The diagnostic of addPoints\<close>

text \<open>
  Claim C8. \<open>vertexCount\<close> is \<open>vertices.size() / 3\<close>: for an input of \<open>n\<close> floats
  (\<open>n\<close> within the range of \<open>int\<close>) the loop adds \<open>n div 3\<close> points. The diagnostic
  logs \<open>vertexCount / 3\<close>, that is \<open>(n div 3) div 3\<close>, which is the point count only
  when there is no point at all (\<open>n < 3\<close>).
\<close>

theorem addPoints_logs_count_div_3:
  assumes "int (length verts) \<le> INT_MAX"
  shows "case addPoints L verts transformation s of
           Inl e \<Rightarrow> False
         | Inr s' \<Rightarrow>
             logcat s' = logcat s @
               [Log ANDROID_LOG_ERROR ''got %d points from as pointcloud data''
                  [int (length verts div 3 div 3)]]
             \<and> length (lastPointCloud s') = length verts div 3
             \<and> (length verts div 3 div 3 = length (lastPointCloud s')) = (length verts < 3)"
proof -
  have "(length verts div 3 div 3 = length verts div 3) = (length verts < 3)"
    by auto
  then show ?thesis
    by (simp add: addPoints_Inr [OF assms])
qed

theorem addPoints_logs_count_div_3_witness:
  "int (length (replicate 30 f1)) \<le> INT_MAX \<and>
   (case addPoints (recording_chisel []) (replicate 30 f1) identity4
           (ChiselMesh_new (recording_chisel [])) of
      Inl e \<Rightarrow> False
    | Inr s' \<Rightarrow>
        logcat s' =
          [Log ANDROID_LOG_INFO ''chisel container was created in native environment'' [],
           Log ANDROID_LOG_ERROR ''got %d points from as pointcloud data'' [3]]
        \<and> length (lastPointCloud s') = 10)"
  using addPoints_logs_count_div_3
    [where verts = "replicate 30 f1" and L = "recording_chisel []"
       and transformation = identity4 and s = "ChiselMesh_new (recording_chisel [])"]
  by (simp add: Let_def INT_MAX_def ChiselMesh_new_def LOGI_def split: sum.splits)

section \<open>Malformed input to addPoints\<close>

text \<open>
  Claim C3 says that a call with a malformed buffer (a length that is no multiple of 3,
  a non-finite coordinate or transform entry) is rejected and mutates nothing. The source
  has no check of its input. Counterexample: a buffer of four floats, a buffer of three
  floats whose first is a NaN, and a pose matrix with a NaN entry are malformed, and each
  call returns with a changed point-cloud buffer and a changed chisel map.
\<close>

theorem addPoints_rejects_malformed_counterexample:
  "malformed [f1, f2, f3, f4] identity4
   \<and> \<not> unmutated (ChiselMesh_new (recording_chisel []))
         (addPoints (recording_chisel []) [f1, f2, f3, f4] identity4
            (ChiselMesh_new (recording_chisel [])))
   \<and> malformed [fNaN, f2, f3] identity4
   \<and> \<not> unmutated (ChiselMesh_new (recording_chisel []))
         (addPoints (recording_chisel []) [fNaN, f2, f3] identity4
            (ChiselMesh_new (recording_chisel [])))
   \<and> malformed [f1, f2, f3] nan_matrix
   \<and> \<not> unmutated (ChiselMesh_new (recording_chisel []))
         (addPoints (recording_chisel []) [f1, f2, f3] nan_matrix
            (ChiselMesh_new (recording_chisel [])))"
proof -
  have a: "int (length [f1, f2, f3, f4]) \<le> INT_MAX"
    and b: "int (length [fNaN, f2, f3]) \<le> INT_MAX"
    and c: "int (length [f1, f2, f3]) \<le> INT_MAX"
    by (simp_all add: INT_MAX_def)
  have nan: "\<not> isfinite fNaN"
    by (simp add: isfinite_def fNaN_def)
  show ?thesis
    by (simp add: addPoints_Inr [OF a] addPoints_Inr [OF b] addPoints_Inr [OF c]
          unmutated_def malformed_def nan nan_matrix_def
          ChiselMesh_new_def Let_def LOGI_def upt_rec)
qed

text \<open>
  Claim C3 as amended. \<open>addPoints\<close> validates nothing: for every buffer of \<open>n\<close> floats
  (\<open>n\<close> within the range of \<open>int\<close>), malformed or not, and every pose matrix the call
  returns; the point-cloud buffer then holds the first \<open>3 * (n div 3)\<close> floats of the
  input bit for bit (the \<open>n mod 3\<close> trailing floats are ignored), the integrator has been
  called on that cloud with the copied pose, and the configuration is unchanged.
\<close>

theorem addPoints_validates_nothing:
  assumes "int (length verts) \<le> INT_MAX"
  shows "case addPoints L verts transformation s of
           Inl e \<Rightarrow> False
         | Inr s' \<Rightarrow>
             concat (map coords (lastPointCloud s')) = take (3 * (length verts div 3)) verts
             \<and> chiselMap s' =
                 IntegratePointCloud L (projectionIntegrator s) (lastPointCloud s')
                   (Transform_of_mat4 transformation) (rayTruncation s) (farClipping s)
                   (chiselMap s)
             \<and> config s' = config s"
proof -
  have "3 * (length verts div 3) \<le> length verts" by simp
  then have "concat (map coords (map (point_of verts) [0 ..< length verts div 3]))
               = take (3 * (length verts div 3)) verts"
    by (rule concat_points)
  then show ?thesis
    by (simp add: addPoints_Inr [OF assms] config_def)
qed

theorem addPoints_validates_nothing_witness:
  "int (length [fNaN, f2, f3, f4]) \<le> INT_MAX \<and> malformed [fNaN, f2, f3, f4] identity4 \<and>
   (case addPoints (recording_chisel []) [fNaN, f2, f3, f4] identity4
           (ChiselMesh_new (recording_chisel [])) of
      Inl e \<Rightarrow> False
    | Inr s' \<Rightarrow>
        concat (map coords (lastPointCloud s')) = [fNaN, f2, f3]
        \<and> length (chiselMap s') = 1
        \<and> config s' = (16, 3 / 50, 8, 1, 2, 1 / 2, True, 1 / 2))"
  using addPoints_validates_nothing
    [where verts = "[fNaN, f2, f3, f4]" and L = "recording_chisel []"
       and transformation = identity4 and s = "ChiselMesh_new (recording_chisel [])"]
  by (simp add: Let_def INT_MAX_def ChiselMesh_new_def LOGI_def recording_chisel_def
        config_def malformed_def split: sum.splits)

section \<open>The configuration\<close>

text \<open>
  Claim C7. The constructor sets chunk size 16, voxel resolution 0.06, truncation scale
  8.0, weighting constant 1.0, far-clip distance 2.0, ray-truncation distance 0.5, carving
  enabled and carving distance 0.5; and whatever sequence of \<open>addPoints\<close> and
  \<open>updateVertices\<close> calls runs from a state, the state it returns has the same
  configuration fields and the same integrator object.
\<close>

theorem configuration_is_fixed:
  "config (ChiselMesh_new L) = (16, 0.06, 8.0, 1.0, 2.0, 0.5, True, 0.5)
   \<and> (case run L calls s of
         Inl e \<Rightarrow> True
       | Inr s' \<Rightarrow> config s' = config s \<and> projectionIntegrator s' = projectionIntegrator s)"
proof -
  have "config (ChiselMesh_new L) = (16, 0.06, 8.0, 1.0, 2.0, 0.5, True, 0.5)"
    by (simp add: config_def ChiselMesh_new_def Let_def LOGI_def)
  moreover have "case run L calls s of
         Inl e \<Rightarrow> True
       | Inr s' \<Rightarrow> config s' = config s \<and> projectionIntegrator s' = projectionIntegrator s"
    using run_config [of L calls s] by (simp split: sum.splits)
  ultimately show ?thesis by simp
qed

theorem configuration_is_fixed_witness:
  "config (ChiselMesh_new (recording_chisel [((0, 0, 0), quad)]))
     = (16, 3 / 50, 8, 1, 2, 1 / 2, True, 1 / 2)
   \<and> (case run (recording_chisel [((0, 0, 0), quad)])
              [AddPoints [f1, f2, f3] identity4, UpdateVertices, AddPoints [f4, f4] identity4]
              (ChiselMesh_new (recording_chisel [((0, 0, 0), quad)])) of
         Inl e \<Rightarrow> False
       | Inr s' \<Rightarrow> config s' = (16, 3 / 50, 8, 1, 2, 1 / 2, True, 1 / 2)
                  \<and> length (chiselMap s') = 2
                  \<and> length (vertices_buffer s') = 18)"
proof -
  have a: "int (length [f1, f2, f3]) \<le> INT_MAX" and b: "int (length [f4, f4]) \<le> INT_MAX"
    by (simp_all add: INT_MAX_def)
  have ok: "meshes_ok [((0, 0, 0), quad)]"
    by (simp add: meshes_ok_def mesh_ok_def quad_def)
  from configuration_is_fixed
    [where L = "recording_chisel [((0, 0, 0), quad)]"
       and s = "ChiselMesh_new (recording_chisel [((0, 0, 0), quad)])"
       and calls = "[AddPoints [f1, f2, f3] identity4, UpdateVertices,
                     AddPoints [f4, f4] identity4]"]
  show ?thesis
    using ok
    by (simp add: addPoints_Inr [OF a] addPoints_Inr [OF b] updateVertices_Inr
          recording_chisel_def flat_vertices_def coords_def quad_def
          ChiselMesh_new_def config_def Let_def LOGI_def)
qed

section \<open>The buffers of updateVertices\<close>

text \<open>
  Claim C2. For a mesh map whose chunk meshes index their own vertices, \<open>updateVertices\<close>
  returns, and its buffers are built by visiting every chunk mesh's index list in order:
  each index \<open>i\<close> contributes the three coordinates of vertex \<open>i\<close> to the vertex buffer
  and the three entries for \<open>3i\<close>, \<open>3i+1\<close>, \<open>3i+2\<close> to the index buffer. So the
  index buffer is as long as the vertex buffer, three entries per visited index, a
  multiple of 3.
\<close>

theorem updateVertices_flattens:
  assumes "meshes_ok (GetAllMeshes L (UpdateMeshes L (chiselMap s)))"
  shows "case updateVertices L s of
           Inl e \<Rightarrow> False
         | Inr s' \<Rightarrow>
             vertices_buffer s' = flat_vertices (GetAllMeshes L (UpdateMeshes L (chiselMap s)))
             \<and> indices_buffer s' = flat_indices (GetAllMeshes L (UpdateMeshes L (chiselMap s)))
             \<and> length (indices_buffer s') = length (vertices_buffer s')
             \<and> length (indices_buffer s') =
                 3 * sum_list (map (\<lambda>meshes. length (indices (snd meshes)))
                                   (GetAllMeshes L (UpdateMeshes L (chiselMap s))))
             \<and> 3 dvd length (indices_buffer s')"
proof -
  let ?mm = "GetAllMeshes L (UpdateMeshes L (chiselMap s))"
  have n: "length (flat_vertices ?mm) =
             3 * sum_list (map (\<lambda>meshes. length (indices (snd meshes))) ?mm)"
    using length_flat3 [of ?mm] by (simp add: length_flat)
  then have d: "3 dvd length (flat_vertices ?mm)"
    by simp
  show ?thesis
    using n d by (simp add: updateVertices_Inr [OF assms] length_flat)
qed

theorem updateVertices_flattens_witness:
  "meshes_ok (GetAllMeshes (recording_chisel [((0, 0, 0), quad)])
      (UpdateMeshes (recording_chisel [((0, 0, 0), quad)])
         (chiselMap (ChiselMesh_new (recording_chisel [((0, 0, 0), quad)])))))
   \<and> (case updateVertices (recording_chisel [((0, 0, 0), quad)])
              (ChiselMesh_new (recording_chisel [((0, 0, 0), quad)])) of
         Inl e \<Rightarrow> False
       | Inr s' \<Rightarrow>
           vertices_buffer s' = [0, 0, f1,  f1, 0, f1,  f1, f1, f1,  0, 0, f1,  f1, f1, f1,  0, f1, f1]
           \<and> indices_buffer s' = [0, 1, 2,  3, 4, 5,  6, 7, 8,  0, 1, 2,  6, 7, 8,  9, 10, 11]
           \<and> length (indices_buffer s') = 18)"
  using updateVertices_flattens
    [where L = "recording_chisel [((0, 0, 0), quad)]"
       and s = "ChiselMesh_new (recording_chisel [((0, 0, 0), quad)])"]
  by (simp add: recording_chisel_def meshes_ok_def mesh_ok_def quad_def flat_vertices_def
        flat_indices_def coords_def expanded_def to_GLushort_def split: sum.splits)

section \<open>The 16-bit index entries\<close>

text \<open>
  Claim C10. The entries of the index buffer are 16-bit unsigned values: read as numbers
  they are \<open>(3i + k) mod 65536\<close> for \<open>k = 0, 1, 2\<close>, and \<open>updateVertices\<close> returns
  normally whatever the size of the indices. The triple stored for \<open>i\<close> is
  \<open>(3i, 3i+1, 3i+2)\<close> exactly when \<open>i < 21845\<close>: from \<open>i = 21845\<close> on the entries for
  \<open>3i+1\<close> and \<open>3i+2\<close> have wrapped around, and from \<open>i = 21846\<close> on the one for
  \<open>3i\<close> as well.
\<close>

theorem index_entries_wrap_at_16_bits:
  assumes "meshes_ok (GetAllMeshes L (UpdateMeshes L (chiselMap s)))"
  shows "(case updateVertices L s of
            Inl e \<Rightarrow> False
          | Inr s' \<Rightarrow>
              map unat (indices_buffer s') =
                concat (map (\<lambda>meshes. concat (map (\<lambda>i. [(3 * i) mod 65536, (3 * i + 1) mod 65536,
                                                           (3 * i + 2) mod 65536])
                                                   (indices (snd meshes))))
                            (GetAllMeshes L (UpdateMeshes L (chiselMap s)))))
         \<and> (unat (to_GLushort (i * 3)) = i * 3) = (i \<le> 21845)
         \<and> (unat (to_GLushort (i * 3 + 1)) = i * 3 + 1) = (i < 21845)
         \<and> (unat (to_GLushort (i * 3 + 2)) = i * 3 + 2) = (i < 21845)
         \<and> (map unat (expanded i) = [i * 3, i * 3 + 1, i * 3 + 2]) = (i < 21845)"
proof -
  have a: "(unat (to_GLushort (i * 3)) = i * 3) = (i \<le> 21845)"
    unfolding to_GLushort_unat mod_id_iff by arith
  have b: "(unat (to_GLushort (i * 3 + 1)) = i * 3 + 1) = (i < 21845)"
    unfolding to_GLushort_unat mod_id_iff by arith
  have c: "(unat (to_GLushort (i * 3 + 2)) = i * 3 + 2) = (i < 21845)"
    unfolding to_GLushort_unat mod_id_iff by arith
  have d: "(map unat (expanded i) = [i * 3, i * 3 + 1, i * 3 + 2]) = (i < 21845)"
    using a b c by (auto simp: expanded_def)
  show ?thesis
    using a b c d by (simp add: updateVertices_Inr [OF assms] unat_flat_indices)
qed

theorem index_entries_wrap_at_16_bits_witness:
  "meshes_ok (GetAllMeshes (recording_chisel [((0, 0, 0), big_mesh)])
      (UpdateMeshes (recording_chisel [((0, 0, 0), big_mesh)])
         (chiselMap (ChiselMesh_new (recording_chisel [((0, 0, 0), big_mesh)])))))
   \<and> (case updateVertices (recording_chisel [((0, 0, 0), big_mesh)])
              (ChiselMesh_new (recording_chisel [((0, 0, 0), big_mesh)])) of
         Inl e \<Rightarrow> False
       | Inr s' \<Rightarrow> map unat (indices_buffer s') = [65532, 65533, 65534, 65535, 0, 1])
   \<and> unat (to_GLushort (21845 * 3)) = 21845 * 3
   \<and> unat (to_GLushort (21845 * 3 + 1)) \<noteq> 21845 * 3 + 1
   \<and> unat (to_GLushort (21845 * 3 + 2)) \<noteq> 21845 * 3 + 2"
proof -
  have ok: "meshes_ok (GetAllMeshes (recording_chisel [((0, 0, 0), big_mesh)])
      (UpdateMeshes (recording_chisel [((0, 0, 0), big_mesh)])
         (chiselMap (ChiselMesh_new (recording_chisel [((0, 0, 0), big_mesh)])))))"
    by (simp add: recording_chisel_def meshes_ok_def mesh_ok_def big_mesh_def)
  from index_entries_wrap_at_16_bits [OF ok, where i = 21845] ok
  show ?thesis
    by (simp add: recording_chisel_def big_mesh_def split: sum.splits)
qed

section \<open>Re-extraction\<close>

text \<open>
  Claim C4. Over the chunk store and mesh extractor of the spec, with any integration and
  any surface extraction: when a call of \<open>updateVertices\<close> has returned, a second call
  right after it (no \<open>addPoints\<close> in between) returns too and leaves the same vertex
  buffer and the same index buffer, bit for bit.
\<close>

theorem re_extraction_is_idempotent:
  assumes "updateVertices (spec_chisel integrate mesher) s = Inr s1"
  shows "case updateVertices (spec_chisel integrate mesher) s1 of
           Inl e \<Rightarrow> False
         | Inr s2 \<Rightarrow> vertices_buffer s2 = vertices_buffer s1 \<and> indices_buffer s2 = indices_buffer s1"
  using assms
  by (intro updateVertices_again [where s = s]) (simp_all add: spec_chisel_def remesh_idem)

theorem re_extraction_is_idempotent_witness:
  "(case updateVertices quad_chisel ((ChiselMesh_new quad_chisel)\<lparr>chiselMap := dirty_store\<rparr>) of
      Inl e \<Rightarrow> False
    | Inr s1 \<Rightarrow>
        length (vertices_buffer s1) = 18
        \<and> (case updateVertices quad_chisel s1 of
              Inl e \<Rightarrow> False
            | Inr s2 \<Rightarrow> vertices_buffer s2 = vertices_buffer s1
                        \<and> indices_buffer s2 = indices_buffer s1))"
proof -
  let ?s = "(ChiselMesh_new quad_chisel)\<lparr>chiselMap := dirty_store\<rparr>"
  have mm: "GetAllMeshes quad_chisel (UpdateMeshes quad_chisel (chiselMap ?s)) = [((0, 0, 0), quad)]"
    by (simp add: quad_chisel_def spec_chisel_def remesh_def dirty_store_def voxel_contents_def
          quad_mesher_def)
  have ok: "meshes_ok (GetAllMeshes quad_chisel (UpdateMeshes quad_chisel (chiselMap ?s)))"
    unfolding mm by (simp add: meshes_ok_def mesh_ok_def quad_def)
  have n: "length (flat_vertices [((0, 0, 0), quad)]) = 18"
    by (simp add: flat_vertices_def quad_def coords_def)
  obtain s1 where first: "updateVertices quad_chisel ?s = Inr s1"
    and len: "length (vertices_buffer s1) = 18"
    using updateVertices_Inr [OF ok] n unfolding mm by simp
  from first have "updateVertices (spec_chisel dirtying_integrator quad_mesher) ?s = Inr s1"
    by (simp add: quad_chisel_def)
  from re_extraction_is_idempotent [OF this] first len show ?thesis
    by (simp add: quad_chisel_def)
qed

section \<open>The far-clip distance\<close>

text \<open>
  Claim C5 says that a point beyond the far-clip distance (2.0) is skipped and affects no
  voxel, and that a point at a range strictly below it does affect voxels. Over the
  integrator of the spec the second half fails for a zero-length ray. Counterexample: with
  the identity pose the point at the sensor origin has range 0, below 2.0, and integrating
  it leaves the empty volume as it was.
\<close>

theorem far_clip_counterexample:
  "range_of identity_pose (0, 0, 0)
     < farClipDistance (configured (ChiselMesh_new (recording_chisel [])) id)
   \<and> integrate_cloud (configured (ChiselMesh_new (recording_chisel [])) id) identity_pose
        [(0, 0, 0)] empty_volume = empty_volume"
  by (simp add: configured_values integrate_cloud_def integrate_point_def range_of_def to_world_def
        identity_pose_def norm3_def Let_def)

text \<open>
  Claim C5 as amended. Over the integrator of the spec with the configured constants: the
  far-clip distance is 2.0; integrating a cloud gives the volume that integrating the cloud
  without its points beyond 2.0 gives; a point beyond 2.0 and a point at range 0 leave the
  volume as it was; and when a cloud holds a point at a range above 0 and at most 2.0, the
  voxel holding the sensor origin has gained a weight of at least 1.0 after the cloud, so
  the volume has changed.
\<close>

theorem far_clip_and_zero_length_rays:
  assumes "p \<in> set cloud"
  shows "integrate_cloud (configured (ChiselMesh_new L) c) pose cloud vol
           = integrate_cloud (configured (ChiselMesh_new L) c) pose
               (filter (\<lambda>q. range_of pose q \<le> 2) cloud) vol
         \<and> farClipDistance (configured (ChiselMesh_new L) c) = 2
         \<and> (if 2 < range_of pose p \<or> range_of pose p = 0
             then integrate_point (configured (ChiselMesh_new L) c) pose p vol = vol
             else weight (voxel_at vol (voxel_of (voxel_resolution (configured (ChiselMesh_new L) c))
                                                (translation pose))) + 1
                    \<le> weight (voxel_at (integrate_cloud (configured (ChiselMesh_new L) c) pose cloud vol)
                                (voxel_of (voxel_resolution (configured (ChiselMesh_new L) c))
                                          (translation pose)))
                  \<and> integrate_cloud (configured (ChiselMesh_new L) c) pose cloud vol \<noteq> vol)"
proof -
  let ?cfg = "configured (ChiselMesh_new L) c"
  let ?a = "voxel_of (voxel_resolution ?cfg) (translation pose)"
  have far: "farClipDistance ?cfg = 2" and w: "GetWeight (weighter (policies ?cfg)) = 1"
    by (rule configured_values)+
  have nn: "0 \<le> range_of pose p"
    by (simp add: range_of_def norm3_def dot_self_nonneg)
  have skip: "integrate_cloud ?cfg pose cloud vol
               = integrate_cloud ?cfg pose (filter (\<lambda>q. range_of pose q \<le> 2) cloud) vol"
    using integrate_cloud_skips [of ?cfg pose cloud vol] by (simp add: far)
  show ?thesis
  proof (cases "2 < range_of pose p \<or> range_of pose p = 0")
    case True
    then have "integrate_point ?cfg pose p vol = vol"
      by (auto simp: integrate_point_def range_of_def Let_def far)
    with True skip far show ?thesis by simp
  next
    case False
    then have r: "0 < range_of pose p" "range_of pose p \<le> farClipDistance ?cfg"
      using nn by (auto simp: far)
    have gain: "weight (voxel_at vol ?a) + 1 \<le> weight (voxel_at (integrate_cloud ?cfg pose cloud vol) ?a)"
      using integrate_cloud_affects [OF configured_ok assms r, of vol] by (simp add: w)
    then have "integrate_cloud ?cfg pose cloud vol \<noteq> vol"
      by auto
    with False skip far gain show ?thesis by simp
  qed
qed

theorem far_clip_and_zero_length_rays_witness:
  "(0, 0, 1) \<in> set [(0, 0, 1), (0, 0, 3 :: real)]
   \<and> range_of identity_pose (0, 0, 1) = 1
   \<and> integrate_cloud (configured (ChiselMesh_new (recording_chisel [])) id) identity_pose
         [(0, 0, 1), (0, 0, 3)] empty_volume
       = integrate_cloud (configured (ChiselMesh_new (recording_chisel [])) id) identity_pose
         [(0, 0, 1)] empty_volume
   \<and> integrate_cloud (configured (ChiselMesh_new (recording_chisel [])) id) identity_pose
         [(0, 0, 1), (0, 0, 3)] empty_volume \<noteq> empty_volume"
proof -
  have r1: "range_of identity_pose (0, 0, 1) = 1" and r3: "range_of identity_pose (0, 0, 3) = 3"
    by (simp_all add: range_of_def to_world_def identity_pose_def norm3_def real_sqrt_eq_iff
          flip: power2_eq_square)
  from far_clip_and_zero_length_rays
    [where p = "(0, 0, 1)" and cloud = "[(0, 0, 1), (0, 0, 3)]" and pose = identity_pose
       and L = "recording_chisel []" and c = id and vol = empty_volume]
  show ?thesis
    by (auto simp: r1 r3)
qed

section \<open>The running weighted average\<close>




end
